theory Spec2Isabelle
  imports Main "HOL-Library.Word" "HOL-Library.Sublist"
begin

section \<open>JavaScript strings\<close>

text \<open>
  A JavaScript string is a sequence of UTF-16 code units. String literals of the source
  are written with \<open>js\<close>; all literals of the modelled code are ASCII.
\<close>

type_synonym jsstring = "16 word list"

definition js :: "string \<Rightarrow> jsstring" where
  "js s = map of_char s"

text \<open>
  \<^verbatim>\<open>String.prototype.trim\<close> removes the code units of the ECMAScript productions
  WhiteSpace and LineTerminator from both ends.
\<close>

definition isWhiteSpace :: "16 word \<Rightarrow> bool" where
  "isWhiteSpace c \<longleftrightarrow>
     c \<in> {0x0009, 0x000A, 0x000B, 0x000C, 0x000D, 0x0020, 0x00A0, 0x1680,
           0x2028, 0x2029, 0x202F, 0x205F, 0x3000, 0xFEFF}
     \<or> (0x2000 \<le> c \<and> c \<le> 0x200A)"

definition trim :: "jsstring \<Rightarrow> jsstring" where
  "trim s = rev (dropWhile isWhiteSpace (rev (dropWhile isWhiteSpace s)))"

text \<open>\<^verbatim>\<open>s.includes(t)\<close>: \<open>t\<close> occurs in \<open>s\<close> as a contiguous run.\<close>

fun String_includes :: "jsstring \<Rightarrow> jsstring \<Rightarrow> bool" where
  "String_includes [] t = (t = [])"
| "String_includes (c # s) t = (prefix t (c # s) \<or> String_includes s t)"

text \<open>
  \<^verbatim>\<open>`${n}`\<close> for a non-negative integer below \<open>10\<^sup>2\<^sup>1\<close> (every array index is):
  its decimal digits.
\<close>

definition digit :: "nat \<Rightarrow> 16 word" where
  "digit d = of_nat (48 + d)"

function Number_toString :: "nat \<Rightarrow> jsstring" where
  "Number_toString n =
     (if n < 10 then [digit n] else Number_toString (n div 10) @ [digit (n mod 10)])"
  by pat_completeness auto
termination
  by (relation "measure id") auto

declare Number_toString.simps [simp del]

section \<open>Thrown values\<close>

text \<open>
  What a \<^verbatim>\<open>throw\<close> or a rejected promise carries. \<open>Error\<close> and \<open>TypeError\<close> are
  instances of \<^verbatim>\<open>Error\<close> and have a message; anything else may be thrown as well.
\<close>

datatype thrown = Error jsstring | TypeError jsstring | NotAnError

fun instanceof_Error :: "thrown \<Rightarrow> bool" where
  "instanceof_Error (Error m) = True"
| "instanceof_Error (TypeError m) = True"
| "instanceof_Error NotAnError = False"

fun message :: "thrown \<Rightarrow> jsstring" where
  "message (Error m) = m"
| "message (TypeError m) = m"
| "message NotAnError = []"

text \<open>
  The \<^verbatim>\<open>TypeError\<close> raised by reading property \<open>p\<close> of \<^verbatim>\<open>undefined\<close> or
  \<^verbatim>\<open>null\<close>, and the one raised by iterating \<^verbatim>\<open>undefined\<close>; the wording of the
  messages is the engine's (here V8's).
\<close>

definition cannot_read :: "string \<Rightarrow> string \<Rightarrow> thrown" where
  "cannot_read v p =
     TypeError (js ''Cannot read properties of '' @ js v @ js '' (reading '' @ [0x27] @ js p
                @ [0x27] @ js '')'')"

definition not_iterable :: thrown where
  "not_iterable = TypeError (js ''response.candidates[0].content.parts is not iterable'')"

section \<open>The generative-AI client\<close>

text \<open>
  The data of \<^verbatim>\<open>@google/genai\<close> that the services touch. In a response every level
  below the response object is optional, as the SDK declares it.
\<close>

record Blob =
  mimeType :: jsstring
  data :: jsstring

record Part =
  part_text :: "jsstring option"
  inlineData :: "Blob option"

record Content =
  parts :: "Part list option"

record Candidate =
  content :: "Content option"

record GenerateContentResponse =
  response_text :: "jsstring option"
  candidates :: "Candidate list option"

text \<open>
  The three system instructions are fixed texts of the source; only their identity
  matters here.
\<close>

datatype instruction =
  SYSTEM_INSTRUCTION_QUOTE_ADDER | SYSTEM_INSTRUCTION_IMAGE | SYSTEM_INSTRUCTION_VIDEO

datatype Modality = IMAGE_Modality

record request =
  key :: jsstring
  model :: jsstring
  role :: "jsstring option"
  contents :: "Part list"
  systemInstruction :: "instruction option"
  responseMimeType :: "jsstring option"
  temperature :: "int option"
  responseModalities :: "Modality list"

datatype JSON =
  JNull | JBoolean bool | JNumber jsstring | JString jsstring
  | JArray "JSON list" | JObject "(jsstring \<times> JSON) list"

text \<open>
  What the services call but do not define: the remote model behind
  \<^verbatim>\<open>ai.models.generateContent\<close> (it rejects or resolves with a response),
  \<^verbatim>\<open>JSON.parse\<close> (\<open>None\<close> when it throws a \<^verbatim>\<open>SyntaxError\<close>), the canvas that
  draws a text plate (text to base64 PNG data), and \<^verbatim>\<open>fetch\<close> with the reading of
  the body as a blob (on a data URL: it rejects when the data do not decode).
\<close>

record runtime =
  generateContent :: "request \<Rightarrow> thrown + GenerateContentResponse"
  JSON_parse :: "jsstring \<Rightarrow> JSON option"
  renderTextPlate :: "jsstring \<Rightarrow> jsstring"
  fetch_blob :: "jsstring \<Rightarrow> thrown + unit"

text \<open>What a stage does to the outside, in the order it does it.\<close>

datatype event =
  Quote_call request | Plate_render jsstring | Engineer_call request
  | Grounding_call request | Generate_call request

definition text_part :: "jsstring \<Rightarrow> Part" where
  "text_part t = \<lparr>part_text = Some t, inlineData = None\<rparr>"

section \<open>addQuotesToPrompt\<close>

definition quote_request :: "jsstring \<Rightarrow> jsstring \<Rightarrow> request" where
  "quote_request userPrompt apiKey =
     \<lparr>key = apiKey, model = js ''gemini-2.5-flash'', role = None,
      contents = [text_part (js ''User Prompt: '' @ userPrompt)],
      systemInstruction = Some SYSTEM_INSTRUCTION_QUOTE_ADDER,
      responseMimeType = Some (js ''text/plain''), temperature = Some 0,
      responseModalities = []\<rparr>"

text \<open>The body of the \<^verbatim>\<open>try\<close> block; \<open>Inl\<close> is what it throws.\<close>

definition addQuotes_try :: "runtime \<Rightarrow> jsstring \<Rightarrow> jsstring \<Rightarrow> thrown + jsstring" where
  "addQuotes_try rt userPrompt apiKey =
     (case generateContent rt (quote_request userPrompt apiKey) of
        Inl error \<Rightarrow> Inl error
      | Inr response \<Rightarrow>
          (case response_text response of
             None \<Rightarrow> Inl (cannot_read ''undefined'' ''trim'')
           | Some t \<Rightarrow>
               (let quotedPrompt = trim t
                in Inr (if quotedPrompt \<noteq> [] then quotedPrompt else userPrompt))))"

definition addQuotesToPrompt ::
  "runtime \<Rightarrow> jsstring \<Rightarrow> jsstring \<Rightarrow> event list \<times> (thrown + jsstring)" where
  "addQuotesToPrompt rt userPrompt apiKey =
     (if trim userPrompt = [] then ([], Inr userPrompt)
      else ([Quote_call (quote_request userPrompt apiKey)],
            case addQuotes_try rt userPrompt apiKey of
              Inl error \<Rightarrow> Inr userPrompt
            | Inr quoted \<Rightarrow> Inr quoted))"

section \<open>engineerPrompt\<close>

record File =
  name :: jsstring
  type :: jsstring

text \<open>
  An \<^verbatim>\<open>ImageFile\<close> carries the file and its base64 data; the grounding client also
  copies the file name into a \<^verbatim>\<open>name\<close> property of its own.
\<close>

record ImageFile =
  file' :: File
  base64 :: jsstring
  image_name :: "jsstring option"

datatype TargetModel = IMAGE | VIDEO

definition inline_part :: "ImageFile \<Rightarrow> Part" where
  "inline_part img =
     \<lparr>part_text = None,
      inlineData = Some \<lparr>mimeType = type (file' img), data = base64 img\<rparr>\<rparr>"

definition label_part :: "jsstring \<Rightarrow> nat \<Rightarrow> ImageFile \<Rightarrow> Part" where
  "label_part label index img =
     text_part (label @ js '' '' @ Number_toString (index + 1) @ js '' (''
                @ name (file' img) @ js ''):'')"

text \<open>
  The two \<^verbatim>\<open>forEach\<close> loops of \<^verbatim>\<open>engineerPrompt\<close>: each visit pushes a label and
  the image onto the parts \<open>ps\<close>; \<open>index\<close> is the position of the image visited.
\<close>

fun forEach_push :: "jsstring \<Rightarrow> ImageFile list \<Rightarrow> nat \<Rightarrow> Part list \<Rightarrow> Part list" where
  "forEach_push label [] index ps = ps"
| "forEach_push label (img # imgs) index ps =
     forEach_push label imgs (index + 1)
       (ps @ [label_part label index img] @ [inline_part img])"

definition engineer_parts ::
  "jsstring \<Rightarrow> ImageFile list \<Rightarrow> ImageFile list \<Rightarrow> jsstring \<Rightarrow> Part list" where
  "engineer_parts userPrompt textPlates referenceImages aspectRatio =
     (let ps = [text_part (js ''User'' @ [0x27] @ js ''s simple prompt: '' @ userPrompt
                              @ [0x0A] @ js ''Desired Aspect Ratio: '' @ aspectRatio)];
          ps = forEach_push (js ''Text Plate'') textPlates 0 ps;
          ps = forEach_push (js ''User Reference Image'') referenceImages 0 ps
      in ps @ [text_part (js (''Now, generate the professional prompt JSON based on ''
                                 @ ''all inputs and the system instruction.''))])"

definition engineer_request ::
  "jsstring \<Rightarrow> TargetModel \<Rightarrow> ImageFile list \<Rightarrow> ImageFile list \<Rightarrow> jsstring \<Rightarrow> jsstring
   \<Rightarrow> request" where
  "engineer_request userPrompt targetModel textPlates referenceImages aspectRatio apiKey =
     \<lparr>key = apiKey, model = js ''gemini-2.5-pro'', role = Some (js ''user''),
      contents = engineer_parts userPrompt textPlates referenceImages aspectRatio,
      systemInstruction =
        Some (if targetModel = VIDEO then SYSTEM_INSTRUCTION_VIDEO
              else SYSTEM_INSTRUCTION_IMAGE),
      responseMimeType = Some (js ''application/json''), temperature = None,
      responseModalities = []\<rparr>"

text \<open>String conversion of a value that is a string or \<^verbatim>\<open>undefined\<close>.\<close>

fun String_of :: "jsstring option \<Rightarrow> jsstring" where
  "String_of None = js ''undefined''"
| "String_of (Some t) = t"

definition invalid_response :: jsstring where
  "invalid_response =
     js ''The AI returned an invalid response. Please try again. Raw response: ''"

definition engineerPrompt ::
  "runtime \<Rightarrow> jsstring \<Rightarrow> TargetModel \<Rightarrow> ImageFile list \<Rightarrow> ImageFile list \<Rightarrow> jsstring
   \<Rightarrow> jsstring \<Rightarrow> event list \<times> (thrown + JSON)" where
  "engineerPrompt rt userPrompt targetModel textPlates referenceImages aspectRatio apiKey =
     (let req = engineer_request userPrompt targetModel textPlates referenceImages
                  aspectRatio apiKey
      in ([Engineer_call req],
          case generateContent rt req of
            Inl error \<Rightarrow> Inl error
          | Inr response \<Rightarrow>
              (let responseText = response_text response
               in case JSON_parse rt (String_of responseText) of
                    Some parsedJson \<Rightarrow> Inr parsedJson
                  | None \<Rightarrow> Inl (Error (invalid_response @ String_of responseText)))))"

section \<open>getGroundingImage and generateImage\<close>

text \<open>
  \<^verbatim>\<open>response.candidates[0].content.parts\<close>, as far as the \<^verbatim>\<open>for\<close> loop needs it:
  reading a property of \<^verbatim>\<open>undefined\<close> throws, and so does iterating it.
\<close>

definition response_parts :: "GenerateContentResponse \<Rightarrow> thrown + Part list" where
  "response_parts response =
     (case candidates response of
        None \<Rightarrow> Inl (cannot_read ''undefined'' ''0'')
      | Some [] \<Rightarrow> Inl (cannot_read ''undefined'' ''content'')
      | Some (candidate # others) \<Rightarrow>
          (case content candidate of
             None \<Rightarrow> Inl (cannot_read ''undefined'' ''parts'')
           | Some c \<Rightarrow>
               (case parts c of
                  None \<Rightarrow> Inl not_iterable
                | Some ps \<Rightarrow> Inr ps)))"

text \<open>The loop over the parts returns at the first part that has \<^verbatim>\<open>inlineData\<close>.\<close>

fun first_inlineData :: "Part list \<Rightarrow> Blob option" where
  "first_inlineData [] = None"
| "first_inlineData (part # rest) =
     (case inlineData part of
        Some blob \<Rightarrow> Some blob
      | None \<Rightarrow> first_inlineData rest)"

definition image_request :: "Part list \<Rightarrow> jsstring \<Rightarrow> request" where
  "image_request ps apiKey =
     \<lparr>key = apiKey, model = js ''gemini-2.5-flash-image'', role = None, contents = ps,
      systemInstruction = None, responseMimeType = None, temperature = None,
      responseModalities = [IMAGE_Modality]\<rparr>"

text \<open>
  The two versions of the service differ, as far as their functions go, in the wording
  of the grounding prompt only: \<open>grounding_prompt\<close> is the one of the first version,
  \<open>grounding_prompt_studio\<close> the one of the second.
\<close>

definition grounding_prompt :: "jsstring \<Rightarrow> jsstring" where
  "grounding_prompt query =
     js ''A high-quality, photorealistic, daytime, centered, clear photograph of '' @ query
     @ js ''. No people, no text, no watermarks, professional photography.''"

definition grounding_prompt_studio :: "jsstring \<Rightarrow> jsstring" where
  "grounding_prompt_studio query =
     js ''Create a high-resolution, photorealistic, studio-quality photograph of: '' @ query
     @ js ''. '' @ [0x0A]
     @ js (''The subject should be clearly visible, centered, and isolated on a neutral ''
           @ ''gray or white background. '') @ [0x0A]
     @ js (''Show the object from a standard, clear angle (e.g., a 3/4 view or side ''
           @ ''profile for a car). '') @ [0x0A]
     @ js ''Ensure professional, even lighting with no harsh shadows.'' @ [0x0A]
     @ js (''ABSOLUTE NEGATIVES: No people, no other objects, no text, no watermarks, ''
           @ ''no blurry backgrounds, no artistic filters, no unusual angles.'')"

text \<open>
  The grounding client, with the wording of its prompt as a parameter. At the first part
  that has \<^verbatim>\<open>inlineData\<close> it fetches the data as a data URL and makes a file of the
  blob; a rejected fetch is not caught.
\<close>

definition getGroundingImage_worded ::
  "(jsstring \<Rightarrow> jsstring) \<Rightarrow> runtime \<Rightarrow> jsstring \<Rightarrow> jsstring
   \<Rightarrow> event list \<times> (thrown + ImageFile)" where
  "getGroundingImage_worded wording rt query apiKey =
     (let req = image_request [text_part (wording query)] apiKey
      in ([Grounding_call req],
          case generateContent rt req of
            Inl error \<Rightarrow> Inl error
          | Inr response \<Rightarrow>
              (case response_parts response of
                 Inl error \<Rightarrow> Inl error
               | Inr ps \<Rightarrow>
                   (case first_inlineData ps of
                      Some blob \<Rightarrow>
                        (let base64ImageBytes = data blob
                         in case fetch_blob rt (js ''data:image/png;base64,''
                                                 @ base64ImageBytes) of
                              Inl error \<Rightarrow> Inl error
                            | Inr fetched \<Rightarrow>
                                (let file = \<lparr>name = js ''grounding_reference.png'',
                                             type = js ''image/png''\<rparr>
                                 in Inr \<lparr>file' = file, base64 = base64ImageBytes,
                                         image_name = Some (name file)\<rparr>))
                    | None \<Rightarrow> Inl (Error (js ''Failed to generate grounding image.''))))))"

definition getGroundingImage ::
  "runtime \<Rightarrow> jsstring \<Rightarrow> jsstring \<Rightarrow> event list \<times> (thrown + ImageFile)" where
  "getGroundingImage = getGroundingImage_worded grounding_prompt"

definition getGroundingImage_studio ::
  "runtime \<Rightarrow> jsstring \<Rightarrow> jsstring \<Rightarrow> event list \<times> (thrown + ImageFile)" where
  "getGroundingImage_studio = getGroundingImage_worded grounding_prompt_studio"

definition generate_parts :: "jsstring \<Rightarrow> ImageFile list \<Rightarrow> ImageFile list \<Rightarrow> Part list" where
  "generate_parts prompt textPlates referenceImages =
     (let allImages = textPlates @ referenceImages
      in foldl (\<lambda>ps img. ps @ [inline_part img]) [text_part prompt] allImages)"

definition generateImage ::
  "runtime \<Rightarrow> jsstring \<Rightarrow> ImageFile list \<Rightarrow> ImageFile list \<Rightarrow> jsstring
   \<Rightarrow> event list \<times> (thrown + jsstring)" where
  "generateImage rt prompt textPlates referenceImages apiKey =
     (let req = image_request (generate_parts prompt textPlates referenceImages) apiKey
      in ([Generate_call req],
          case generateContent rt req of
            Inl error \<Rightarrow> Inl error
          | Inr response \<Rightarrow>
              (case response_parts response of
                 Inl error \<Rightarrow> Inl error
               | Inr ps \<Rightarrow>
                   (case first_inlineData ps of
                      Some blob \<Rightarrow> Inr (js ''data:image/png;base64,'' @ data blob)
                    | None \<Rightarrow> Inl (Error (js ''No image was generated by the model.''))))))"

section \<open>Text plates\<close>

text \<open>
  Modelled from the spec: \<^verbatim>\<open>extractTextAndGeneratePlates\<close> (components/utils) is not
  among the sources. The spec has one plate rendered per quoted substring of the quoted
  prompt, nothing rendered for an empty text, and no other error path; the plates are the
  files \<^verbatim>\<open>text_plate_N.png\<close> that the system instructions name. A quoted substring
  is what stands between a double quotation mark and the next one.
\<close>

fun outside_quotes :: "jsstring \<Rightarrow> jsstring list"
  and inside_quotes :: "jsstring \<Rightarrow> jsstring \<Rightarrow> jsstring list" where
  "outside_quotes [] = []"
| "outside_quotes (c # s) = (if c = 0x22 then inside_quotes [] s else outside_quotes s)"
| "inside_quotes span [] = []"
| "inside_quotes span (c # s) =
     (if c = 0x22 then span # outside_quotes s else inside_quotes (span @ [c]) s)"

definition quoted_spans :: "jsstring \<Rightarrow> jsstring list" where
  "quoted_spans quotedPrompt = filter (\<lambda>t. t \<noteq> []) (outside_quotes quotedPrompt)"

definition text_plate :: "runtime \<Rightarrow> nat \<Rightarrow> jsstring \<Rightarrow> ImageFile" where
  "text_plate rt index t =
     \<lparr>file' = \<lparr>name = js ''text_plate_'' @ Number_toString (index + 1) @ js ''.png'',
               type = js ''image/png''\<rparr>,
      base64 = renderTextPlate rt t, image_name = None\<rparr>"

definition extractTextAndGeneratePlates ::
  "runtime \<Rightarrow> jsstring \<Rightarrow> event list \<times> ImageFile list" where
  "extractTextAndGeneratePlates rt quotedPrompt =
     (let spans = quoted_spans quotedPrompt
      in (map Plate_render spans, map2 (text_plate rt) [0..<length spans] spans))"

section \<open>The engineered prompt as the orchestrator reads it\<close>

text \<open>
  \<^verbatim>\<open>engineerPrompt\<close> hands on whatever \<^verbatim>\<open>JSON.parse\<close> produced. Reading one of
  the three fields the orchestrator uses (no prototype defines a property of these names)
  throws on \<^verbatim>\<open>null\<close>, and gives \<^verbatim>\<open>undefined\<close> where the value has no such property
  of its own.
\<close>

definition get_field :: "JSON \<Rightarrow> string \<Rightarrow> thrown + JSON option" where
  "get_field v p =
     (case v of
        JNull \<Rightarrow> Inl (cannot_read ''null'' p)
      | JObject kvs \<Rightarrow> Inr (map_of kvs (js p))
      | _ \<Rightarrow> Inr None)"

text \<open>
  The string conversion of a template literal, on values that come out of
  \<^verbatim>\<open>JSON.parse\<close>. A number is represented by the string JavaScript prints for it. An
  array joins its elements with commas, \<^verbatim>\<open>null\<close> elements as empty strings; an object
  prints as \<^verbatim>\<open>[object Object]\<close> unless a property of its own hides \<^verbatim>\<open>toString\<close>
  (no parsed value is callable, so the conversion then throws).
\<close>

fun ToString :: "JSON \<Rightarrow> thrown + jsstring"
  and join :: "JSON list \<Rightarrow> thrown + jsstring" where
  "ToString JNull = Inr (js ''null'')"
| "ToString (JBoolean b) = Inr (if b then js ''true'' else js ''false'')"
| "ToString (JNumber n) = Inr n"
| "ToString (JString t) = Inr t"
| "ToString (JArray xs) = join xs"
| "ToString (JObject kvs) =
     (if js ''toString'' \<in> fst ` set kvs
      then Inl (TypeError (js ''Cannot convert object to primitive value''))
      else Inr (js ''[object Object]''))"
| "join [] = Inr []"
| "join (x # xs) =
     (case (if x = JNull then Inr [] else ToString x) of
        Inl error \<Rightarrow> Inl error
      | Inr t \<Rightarrow>
          (if xs = [] then Inr t
           else (case join xs of
                   Inl error \<Rightarrow> Inl error
                 | Inr r \<Rightarrow> Inr (t @ js '','' @ r))))"

definition field_string :: "JSON \<Rightarrow> string \<Rightarrow> thrown + jsstring" where
  "field_string v p =
     (case get_field v p of
        Inl error \<Rightarrow> Inl error
      | Inr None \<Rightarrow> Inr (js ''undefined'')
      | Inr (Some x) \<Rightarrow> ToString x)"

definition promptToUse :: "JSON \<Rightarrow> thrown + jsstring" where
  "promptToUse engineeredPrompt =
     (case field_string engineeredPrompt ''professional_prompt'' of
        Inl error \<Rightarrow> Inl error
      | Inr professional \<Rightarrow>
          (case field_string engineeredPrompt ''text_replication_instruction'' of
             Inl error \<Rightarrow> Inl error
           | Inr replication \<Rightarrow>
               (case field_string engineeredPrompt ''negative_prompt'' of
                  Inl error \<Rightarrow> Inl error
                | Inr negative \<Rightarrow>
                    Inr (professional @ [0x0A, 0x0A] @ replication @ [0x0A, 0x0A]
                         @ js ''Negative Prompt: '' @ negative))))"

section \<open>The orchestrator\<close>

datatype AppState = IDLE | LOADING | SUCCESS | ERROR

datatype AspectRatio = SQUARE | PORTRAIT | LANDSCAPE

text \<open>
  Modelled from the spec: the enum \<^verbatim>\<open>AspectRatio\<close> (types.ts) is not among the
  sources; its string values are read off the labels of the three buttons.
\<close>

fun AspectRatio_value :: "AspectRatio \<Rightarrow> jsstring" where
  "AspectRatio_value SQUARE = js ''1:1''"
| "AspectRatio_value PORTRAIT = js ''9:16''"
| "AspectRatio_value LANDSCAPE = js ''16:9''"

record GenerationConfig =
  prompt :: jsstring
  textPlates :: "ImageFile list"
  referenceImages :: "ImageFile list"

text \<open>
  The state of the component, with the stored item \<^verbatim>\<open>gemini-api-key\<close> of
  \<^verbatim>\<open>localStorage\<close>. The state variable \<^verbatim>\<open>referenceImages\<close> is \<open>referenceImages'\<close>.
\<close>

record App =
  appState :: AppState
  errorMessage :: "jsstring option"
  apiKey :: "jsstring option"
  isApiKeyModalOpen :: bool
  apiKeyError :: "jsstring option"
  userPrompt :: jsstring
  referenceImages' :: "ImageFile list"
  aspectRatio :: AspectRatio
  resultUrl :: "jsstring option"
  lastConfig :: "GenerationConfig option"
  localStorage :: "jsstring option"

definition initial :: "jsstring option \<Rightarrow> App" where
  "initial stored =
     \<lparr>appState = IDLE, errorMessage = None, apiKey = None, isApiKeyModalOpen = False,
      apiKeyError = None, userPrompt = [], referenceImages' = [], aspectRatio = SQUARE,
      resultUrl = None, lastConfig = None, localStorage = stored\<rparr>"

text \<open>Truthiness of a value that is a string or \<^verbatim>\<open>null\<close>.\<close>

fun truthy :: "jsstring option \<Rightarrow> bool" where
  "truthy None = False"
| "truthy (Some t) = (t \<noteq> [])"

definition useEffect :: "App \<Rightarrow> App" where
  "useEffect s =
     (let storedApiKey = localStorage s
      in if truthy storedApiKey
         then s\<lparr>apiKey := storedApiKey, isApiKeyModalOpen := False\<rparr>
         else s\<lparr>isApiKeyModalOpen := True\<rparr>)"

definition handleSaveApiKey :: "jsstring \<Rightarrow> App \<Rightarrow> App" where
  "handleSaveApiKey newApiKey s =
     s\<lparr>apiKey := Some newApiKey, localStorage := Some newApiKey,
       isApiKeyModalOpen := False, apiKeyError := None\<rparr>"

definition errorDetails :: "thrown option \<Rightarrow> jsstring" where
  "errorDetails error =
     (case error of
        Some e \<Rightarrow> (if instanceof_Error e then message e
                   else js ''An unknown error occurred.'')
      | None \<Rightarrow> js ''An unknown error occurred.'')"

definition invalid_key :: "jsstring \<Rightarrow> bool" where
  "invalid_key details \<longleftrightarrow>
     String_includes details (js ''API key not valid'')
     \<or> String_includes details (js ''API_KEY_INVALID'')"

text \<open>The third parameter defaults to \<^verbatim>\<open>AppState.ERROR\<close> (\<open>None\<close>: not passed).\<close>

definition handleError :: "jsstring \<Rightarrow> thrown option \<Rightarrow> AppState option \<Rightarrow> App \<Rightarrow> App" where
  "handleError msg error state s =
     (if invalid_key (errorDetails error)
      then s\<lparr>localStorage := None, apiKey := None,
             apiKeyError := Some (js ''Your API key is invalid. Please enter a valid key.''),
             isApiKeyModalOpen := True, appState := IDLE\<rparr>
      else s\<lparr>errorMessage := Some (msg @ js '': '' @ errorDetails error),
             appState := (case state of None \<Rightarrow> ERROR | Some st \<Rightarrow> st)\<rparr>)"

text \<open>The \<^verbatim>\<open>else\<close> branch inside the \<^verbatim>\<open>try\<close> of \<^verbatim>\<open>handleGenerate\<close>.\<close>

definition first_generation ::
  "runtime \<Rightarrow> App \<Rightarrow> jsstring \<Rightarrow> jsstring \<Rightarrow> event list \<times> (thrown + GenerationConfig)" where
  "first_generation rt s currentPrompt k =
     (case addQuotesToPrompt rt currentPrompt k of
        (ev1, Inl error) \<Rightarrow> (ev1, Inl error)
      | (ev1, Inr quotedPrompt) \<Rightarrow>
          (case extractTextAndGeneratePlates rt quotedPrompt of
             (ev2, plates) \<Rightarrow>
               (case engineerPrompt rt quotedPrompt IMAGE plates (referenceImages' s)
                       (AspectRatio_value (aspectRatio s)) k of
                  (ev3, Inl error) \<Rightarrow> (ev1 @ ev2 @ ev3, Inl error)
                | (ev3, Inr engineeredPrompt) \<Rightarrow>
                    (case promptToUse engineeredPrompt of
                       Inl error \<Rightarrow> (ev1 @ ev2 @ ev3, Inl error)
                     | Inr p \<Rightarrow>
                         (ev1 @ ev2 @ ev3,
                          Inr \<lparr>prompt = p, textPlates = plates,
                               referenceImages = referenceImages' s\<rparr>)))))"

text \<open>
  \<^verbatim>\<open>handleGenerate\<close> returns what it did to the outside and the states the component
  went through, the last one being the state it ends in. The state setters a handler
  calls between two \<^verbatim>\<open>await\<close>s take effect together, in one render.
\<close>

definition handleGenerate ::
  "runtime \<Rightarrow> GenerationConfig option \<Rightarrow> App \<Rightarrow> event list \<times> App list" where
  "handleGenerate rt retryConfig s =
     (case (if truthy (apiKey s) then apiKey s else None) of
        None \<Rightarrow>
          ([], [s\<lparr>isApiKeyModalOpen := True,
                  apiKeyError := Some (js ''An API key is required to generate images.'')\<rparr>])
      | Some k \<Rightarrow>
          (let isRetry = (retryConfig \<noteq> None);
               currentPrompt = (if isRetry then [] else userPrompt s)
           in if \<not> isRetry \<and> trim currentPrompt = []
              then ([], [handleError (js ''Please enter a prompt to generate.'') None None s])
              else
                (let s1 = s\<lparr>appState := LOADING, resultUrl := None, errorMessage := None\<rparr>
                 in case (case retryConfig of
                            Some config \<Rightarrow> ([], Inr config)
                          | None \<Rightarrow> first_generation rt s currentPrompt k) of
                      (ev, Inl error) \<Rightarrow>
                        (ev, [s1, handleError (js ''Generation failed'') (Some error) None s1])
                    | (ev, Inr config) \<Rightarrow>
                        (let s2 = s1\<lparr>lastConfig := Some config\<rparr>
                         in case generateImage rt (prompt config) (textPlates config)
                                   (referenceImages config) k of
                              (ev', Inl error) \<Rightarrow>
                                (ev @ ev',
                                 [s1, s2,
                                  handleError (js ''Generation failed'') (Some error) None s2])
                            | (ev', Inr objectUrl) \<Rightarrow>
                                (ev @ ev',
                                 [s1, s2,
                                  s2\<lparr>resultUrl := Some objectUrl, appState := SUCCESS\<rparr>])))))"

definition handleStartOver :: "App \<Rightarrow> App" where
  "handleStartOver s =
     s\<lparr>appState := IDLE, resultUrl := None, errorMessage := None, userPrompt := [],
       referenceImages' := [], lastConfig := None, aspectRatio := SQUARE\<rparr>"

section \<open>What is on the screen\<close>

definition shows_credential_prompt :: "App \<Rightarrow> bool" where
  "shows_credential_prompt s = isApiKeyModalOpen s"

definition shows_loading :: "App \<Rightarrow> bool" where
  "shows_loading s = (appState s = LOADING)"

definition shows_error :: "App \<Rightarrow> bool" where
  "shows_error s = (appState s = ERROR \<and> truthy (errorMessage s))"

definition shows_success :: "App \<Rightarrow> bool" where
  "shows_success s = (appState s = SUCCESS \<and> truthy (resultUrl s))"

definition shows_form :: "App \<Rightarrow> bool" where
  "shows_form s = (appState s \<noteq> LOADING \<and> appState s \<noteq> SUCCESS)"

definition views_shown :: "App \<Rightarrow> nat" where
  "views_shown s =
     length (filter (\<lambda>shown. shown)
       [shows_loading s, shows_success s, shows_error s, shows_credential_prompt s])"

text \<open>
  The states the component can be in: the first render, the state after the effect that
  loads the stored key, and then whatever the handlers make of it. A handler runs only
  from a control that is on the screen, and the Generate button is disabled while the
  prompt is empty.
\<close>

inductive reachable :: "App \<Rightarrow> bool" where
  first_render: "reachable (initial stored)"
| mounted: "reachable (useEffect (initial stored))"
| save_key: "reachable s \<Longrightarrow> shows_credential_prompt s \<Longrightarrow> reachable (handleSaveApiKey k s)"
| type_prompt: "reachable s \<Longrightarrow> shows_form s \<Longrightarrow> reachable (s\<lparr>userPrompt := t\<rparr>)"
| pick_images: "reachable s \<Longrightarrow> shows_form s \<Longrightarrow> reachable (s\<lparr>referenceImages' := imgs\<rparr>)"
| pick_ratio: "reachable s \<Longrightarrow> shows_form s \<Longrightarrow> reachable (s\<lparr>aspectRatio := r\<rparr>)"
| generate:
    "reachable s \<Longrightarrow> shows_form s \<Longrightarrow> userPrompt s \<noteq> []
     \<Longrightarrow> s' \<in> set (snd (handleGenerate rt None s)) \<Longrightarrow> reachable s'"
| retry:
    "reachable s \<Longrightarrow> shows_success s
     \<Longrightarrow> s' \<in> set (snd (handleGenerate rt (lastConfig s) s)) \<Longrightarrow> reachable s'"
| start_over:
    "reachable s \<Longrightarrow> shows_error s \<or> shows_success s \<Longrightarrow> reachable (handleStartOver s)"

text \<open>
  What the proofs keep about a reachable state: the credential prompt is open only
  without a usable key, and without a usable key nothing has been started.
\<close>

definition consistent :: "App \<Rightarrow> bool" where
  "consistent s \<longleftrightarrow>
     (isApiKeyModalOpen s \<longrightarrow> \<not> truthy (apiKey s))
     \<and> (\<not> truthy (apiKey s) \<longrightarrow> appState s = IDLE)
     \<and> (appState s = SUCCESS \<longrightarrow> truthy (resultUrl s))
     \<and> (appState s = ERROR \<longrightarrow> truthy (errorMessage s))"

section \<open>The pipeline as the specification words it\<close>

text \<open>
  The request of the prompt-engineering stage in the words of the specification, every
  part written out: a text part with the quoted prompt and the aspect ratio; for each
  text plate a text part with the label numbered from 1 and the file name, followed by a
  part with the media type and the data of the image; the same for each reference image;
  and the text part with the closing instruction. It is compared with what the loops of
  \<^verbatim>\<open>engineerPrompt\<close> build.
\<close>

definition numbered_images :: "jsstring \<Rightarrow> ImageFile list \<Rightarrow> Part list" where
  "numbered_images label imgs =
     concat (map (\<lambda>(n, img).
                    [\<lparr>part_text = Some (label @ js '' '' @ Number_toString n @ js '' (''
                                         @ name (file' img) @ js ''):''),
                      inlineData = None\<rparr>,
                     \<lparr>part_text = None,
                      inlineData = Some \<lparr>mimeType = type (file' img),
                                         data = base64 img\<rparr>\<rparr>])
                 (zip [1..<Suc (length imgs)] imgs))"

definition ordered_parts ::
  "jsstring \<Rightarrow> ImageFile list \<Rightarrow> ImageFile list \<Rightarrow> jsstring \<Rightarrow> Part list" where
  "ordered_parts quotedPrompt plates refs ratio =
     [\<lparr>part_text = Some (js ''User'' @ [0x27] @ js ''s simple prompt: '' @ quotedPrompt
                          @ [0x0A] @ js ''Desired Aspect Ratio: '' @ ratio),
       inlineData = None\<rparr>]
     @ numbered_images (js ''Text Plate'') plates
     @ numbered_images (js ''User Reference Image'') refs
     @ [\<lparr>part_text = Some (js (''Now, generate the professional prompt JSON based on ''
                                @ ''all inputs and the system instruction.'')),
         inlineData = None\<rparr>]"

text \<open>
  Whether the answer of the model is a response whose text does not parse. A rejected
  call has no response, and so no text that fails to parse.
\<close>

definition response_fails_to_parse ::
  "runtime \<Rightarrow> thrown + GenerateContentResponse \<Rightarrow> bool" where
  "response_fails_to_parse rt answer =
     (case answer of
        Inl error \<Rightarrow> False
      | Inr response \<Rightarrow> JSON_parse rt (String_of (response_text response)) = None)"

text \<open>The stage of the pipeline an event belongs to.\<close>

datatype stage = Quoting | Plate_rendering | Engineering | Grounding | Generation

fun stage_of :: "event \<Rightarrow> stage" where
  "stage_of (Quote_call r) = Quoting"
| "stage_of (Plate_render t) = Plate_rendering"
| "stage_of (Engineer_call r) = Engineering"
| "stage_of (Grounding_call r) = Grounding"
| "stage_of (Generate_call r) = Generation"

text \<open>
  Modelled from the spec: the interface \<^verbatim>\<open>EngineeredPrompt\<close> (types.ts) is not among
  the sources. The schema is the one of section 3 of the specification, which the system
  instructions spell out to the model: string fields for the notes, the prompt, the
  text-replication instruction and the negative prompt, a target kind, and a grounding
  query that is a string only for the image target and \<^verbatim>\<open>null\<close> or absent otherwise.
\<close>

fun is_JString :: "JSON option \<Rightarrow> bool" where
  "is_JString (Some (JString t)) = True"
| "is_JString v = False"

definition conforms_EngineeredPrompt :: "JSON \<Rightarrow> bool" where
  "conforms_EngineeredPrompt v =
     (case v of
        JObject kvs \<Rightarrow>
          is_JString (map_of kvs (js ''analysis_notes''))
          \<and> is_JString (map_of kvs (js ''professional_prompt''))
          \<and> is_JString (map_of kvs (js ''text_replication_instruction''))
          \<and> is_JString (map_of kvs (js ''negative_prompt''))
          \<and> map_of kvs (js ''target_model'') \<in> {Some (JString (js ''image'')),
                                                  Some (JString (js ''video''))}
          \<and> (case map_of kvs (js ''grounding_search_query'') of
                None \<Rightarrow> True
              | Some JNull \<Rightarrow> True
              | Some (JString q) \<Rightarrow>
                  map_of kvs (js ''target_model'') = Some (JString (js ''image''))
              | Some other \<Rightarrow> False)
      | _ \<Rightarrow> False)"

section \<open>Runtimes and states of the examples\<close>

text \<open>
  The end-to-end scenario of the specification, with a landmark added: the quoting model
  adds the text of the stop sign, the engineering model answers with a JSON object that
  asks for a grounding photo of the tower, the image model answers with a note and a
  picture.
\<close>

definition quoted :: "string \<Rightarrow> jsstring" where
  "quoted t = [0x22] @ js t @ [0x22]"

definition quoted_demo :: jsstring where
  "quoted_demo = js ''A stop sign by Azadi Tower that says '' @ quoted ''STOP''"

definition engineered_text_demo :: jsstring where
  "engineered_text_demo =
     js ''{'' @ quoted ''grounding_search_query'' @ js '':'' @ quoted ''Azadi Tower Tehran''
     @ js '','' @ quoted ''professional_prompt'' @ js '':'' @ quoted ''P''
     @ js '','' @ quoted ''text_replication_instruction'' @ js '':'' @ quoted ''T''
     @ js '','' @ quoted ''negative_prompt'' @ js '':'' @ quoted ''N'' @ js ''}''"

definition engineered_demo :: JSON where
  "engineered_demo =
     JObject [(js ''grounding_search_query'', JString (js ''Azadi Tower Tehran'')),
              (js ''professional_prompt'', JString (js ''P'')),
              (js ''text_replication_instruction'', JString (js ''T'')),
              (js ''negative_prompt'', JString (js ''N''))]"

text \<open>
  \<^verbatim>\<open>JSON.parse\<close> on the texts of the examples: three of them are JSON, the others
  (prose, \<^verbatim>\<open>undefined\<close>) are not.
\<close>

definition JSON_parse_demo :: "jsstring \<Rightarrow> JSON option" where
  "JSON_parse_demo =
     map_of [(js ''{}'', JObject []), (js ''null'', JNull),
             (engineered_text_demo, engineered_demo)]"

definition picture_demo :: GenerateContentResponse where
  "picture_demo =
     \<lparr>response_text = None,
      candidates = Some [\<lparr>content = Some \<lparr>parts = Some
        [text_part (js ''Here you are''),
         \<lparr>part_text = None,
          inlineData = Some \<lparr>mimeType = js ''image/png'', data = js ''iVBOR''\<rparr>\<rparr>]\<rparr>\<rparr>]\<rparr>"

definition rt_demo :: runtime where
  "rt_demo =
     \<lparr>generateContent =
        (\<lambda>req. if model req = js ''gemini-2.5-flash''
               then Inr \<lparr>response_text = Some quoted_demo, candidates = None\<rparr>
               else if model req = js ''gemini-2.5-pro''
               then Inr \<lparr>response_text = Some engineered_text_demo, candidates = None\<rparr>
               else Inr picture_demo),
      JSON_parse = JSON_parse_demo,
      renderTextPlate = (\<lambda>t. js ''png:'' @ t),
      fetch_blob = (\<lambda>url. Inr ())\<rparr>"

text \<open>A model that answers every request with the same text and no candidates.\<close>

definition rt_text :: "jsstring option \<Rightarrow> runtime" where
  "rt_text t =
     \<lparr>generateContent = (\<lambda>req. Inr \<lparr>response_text = t, candidates = None\<rparr>),
      JSON_parse = JSON_parse_demo,
      renderTextPlate = (\<lambda>t. js ''png:'' @ t),
      fetch_blob = (\<lambda>url. Inr ())\<rparr>"

text \<open>No network: every request is rejected with the error the caller names.\<close>

definition rt_failing :: "thrown \<Rightarrow> runtime" where
  "rt_failing error =
     \<lparr>generateContent = (\<lambda>req. Inl error),
      JSON_parse = JSON_parse_demo,
      renderTextPlate = (\<lambda>t. js ''png:'' @ t),
      fetch_blob = (\<lambda>url. Inr ())\<rparr>"

definition image_demo :: "string \<Rightarrow> string \<Rightarrow> string \<Rightarrow> ImageFile" where
  "image_demo file_name media_type image_data =
     \<lparr>file' = \<lparr>name = js file_name, type = js media_type\<rparr>, base64 = js image_data,
      image_name = None\<rparr>"

definition s_demo :: App where
  "s_demo = (useEffect (initial (Some (js ''KEY''))))
              \<lparr>userPrompt := js ''A stop sign by Azadi Tower''\<rparr>"

section \<open>Facts about strings\<close>

lemma js_Nil_iff [simp]: "js t = [] \<longleftrightarrow> t = []"
  by (simp add: js_def)

lemma trim_Nil_iff: "trim s = [] \<longleftrightarrow> (\<forall>c\<in>set s. isWhiteSpace c)"
proof
  assume "trim s = []"
  then have "dropWhile isWhiteSpace (rev (dropWhile isWhiteSpace s)) = []"
    by (simp add: trim_def)
  then have a: "\<forall>c\<in>set (dropWhile isWhiteSpace s). isWhiteSpace c"
    by simp
  have "dropWhile isWhiteSpace s = []"
  proof (rule ccontr)
    assume n: "dropWhile isWhiteSpace s \<noteq> []"
    then have "\<not> isWhiteSpace (hd (dropWhile isWhiteSpace s))"
      by (rule hd_dropWhile)
    moreover from n have "hd (dropWhile isWhiteSpace s) \<in> set (dropWhile isWhiteSpace s)"
      by (rule hd_in_set)
    ultimately show False using a by blast
  qed
  then show "\<forall>c\<in>set s. isWhiteSpace c"
    by simp
next
  assume "\<forall>c\<in>set s. isWhiteSpace c"
  then have d: "dropWhile isWhiteSpace s = []"
    by simp
  show "trim s = []"
    unfolding trim_def d by simp
qed

lemma String_includes_sublist: "String_includes s t \<longleftrightarrow> sublist t s"
  by (induction s) (simp_all add: sublist_Cons_right)

section \<open>The quoting client\<close>

lemma addQuotesToPrompt_events:
  "fst (addQuotesToPrompt rt p k)
     = (if trim p = [] then [] else [Quote_call (quote_request p k)])"
  by (simp add: addQuotesToPrompt_def)

lemma addQuotesToPrompt_never_fails:
  "\<exists>q. snd (addQuotesToPrompt rt p k) = Inr q"
  by (auto simp: addQuotesToPrompt_def split: sum.splits)

text \<open>
  C4. A prompt that is empty or consists of whitespace only comes back unchanged, and
  the quoting client has made no call to the model.
\<close>

theorem addQuotesToPrompt_blank:
  assumes "\<forall>c\<in>set user_prompt. isWhiteSpace c"
  shows "addQuotesToPrompt rt user_prompt api_key = ([], Inr user_prompt)"
  using assms by (simp add: addQuotesToPrompt_def trim_Nil_iff)

theorem addQuotesToPrompt_blank_witness:
  "addQuotesToPrompt rt_demo (js '' '' @ [0x0A, 0x3000]) (js ''KEY'')
     = ([], Inr (js '' '' @ [0x0A, 0x3000]))"
proof -
  have h: "\<forall>c\<in>set (js '' '' @ [0x0A, 0x3000]). isWhiteSpace c"
    by (simp add: js_def isWhiteSpace_def)
  show ?thesis
    using addQuotesToPrompt_blank [OF h, of rt_demo "js ''KEY''"] by simp
qed

text \<open>
  C3. The quoting client never throws, whatever the prompt and whatever the model does.
  When the call is rejected (transport or authentication failure), when the response
  carries no text to read, and when the text of the response is empty after trimming,
  the result is the original prompt.
\<close>

theorem addQuotesToPrompt_never_throws:
  "(\<exists>quotedPrompt. snd (addQuotesToPrompt rt user_prompt api_key) = Inr quotedPrompt)
   \<and> (generateContent rt (quote_request user_prompt api_key) = Inl error
        \<longrightarrow> snd (addQuotesToPrompt rt user_prompt api_key) = Inr user_prompt)
   \<and> (generateContent rt (quote_request user_prompt api_key) = Inr response
        \<and> response_text response = None
        \<longrightarrow> snd (addQuotesToPrompt rt user_prompt api_key) = Inr user_prompt)
   \<and> (generateContent rt (quote_request user_prompt api_key) = Inr response
        \<and> response_text response = Some t \<and> trim t = []
        \<longrightarrow> snd (addQuotesToPrompt rt user_prompt api_key) = Inr user_prompt)"
  by (auto simp: addQuotesToPrompt_def addQuotes_try_def Let_def
           split: sum.splits option.splits)

theorem addQuotesToPrompt_never_throws_witness:
  "snd (addQuotesToPrompt (rt_failing (Error (js ''Failed to fetch''))) (js ''a sign'')
          (js ''KEY'')) = Inr (js ''a sign'')
   \<and> snd (addQuotesToPrompt (rt_text None) (js ''a sign'') (js ''KEY'')) = Inr (js ''a sign'')
   \<and> snd (addQuotesToPrompt (rt_text (Some (js ''  ''))) (js ''a sign'') (js ''KEY''))
       = Inr (js ''a sign'')"
proof -
  have 1: "generateContent (rt_failing (Error (js ''Failed to fetch'')))
             (quote_request (js ''a sign'') (js ''KEY'')) = Inl (Error (js ''Failed to fetch''))"
    by (simp add: rt_failing_def)
  have 2: "generateContent (rt_text None) (quote_request (js ''a sign'') (js ''KEY''))
             = Inr \<lparr>response_text = None, candidates = None\<rparr>"
    by (simp add: rt_text_def)
  have 3: "generateContent (rt_text (Some (js ''  ''))) (quote_request (js ''a sign'') (js ''KEY''))
             = Inr \<lparr>response_text = Some (js ''  ''), candidates = None\<rparr>"
    by (simp add: rt_text_def)
  have 4: "trim (js ''  '') = []"
    by (simp add: trim_def js_def isWhiteSpace_def)
  show ?thesis
    using 1 2 3 4
      addQuotesToPrompt_never_throws [of "rt_failing (Error (js ''Failed to fetch''))"
        "js ''a sign''" "js ''KEY''" "Error (js ''Failed to fetch'')"]
      addQuotesToPrompt_never_throws [of "rt_text None" "js ''a sign''" "js ''KEY''" _
        "\<lparr>response_text = None, candidates = None\<rparr>"]
      addQuotesToPrompt_never_throws [of "rt_text (Some (js ''  ''))" "js ''a sign''"
        "js ''KEY''" _ "\<lparr>response_text = Some (js ''  ''), candidates = None\<rparr>" "js ''  ''"]
    by simp
qed

section \<open>The prompt-engineering client\<close>

lemma forEach_push_numbered:
  "forEach_push label imgs index ps =
     ps @ concat (map (\<lambda>(n, img).
                    [text_part (label @ js '' '' @ Number_toString n @ js '' (''
                                @ name (file' img) @ js ''):''),
                     inline_part img])
                 (zip [Suc index..<Suc index + length imgs] imgs))"
proof (induction imgs arbitrary: index ps)
  case Nil
  then show ?case by simp
next
  case (Cons img imgs)
  have "[Suc index..<Suc index + length (img # imgs)]
        = Suc index # [Suc (Suc index)..<Suc (Suc index) + length imgs]"
    by (simp add: upt_rec)
  then show ?case
    using Cons.IH [of "Suc index"] by (simp add: label_part_def)
qed

lemma engineer_parts_ordered:
  "engineer_parts quotedPrompt plates refs ratio = ordered_parts quotedPrompt plates refs ratio"
  by (simp add: engineer_parts_def ordered_parts_def numbered_images_def
      forEach_push_numbered Let_def text_part_def inline_part_def)

lemma engineerPrompt_events:
  "fst (engineerPrompt rt p tm plates refs ratio k)
     = [Engineer_call (engineer_request p tm plates refs ratio k)]"
  by (simp add: engineerPrompt_def Let_def)

text \<open>
  C9. The request of the prompt-engineering client carries its parts in a fixed order:
  the text part with the quoted prompt and the aspect ratio; then, for each text plate,
  a text part with its label (numbered from 1, with the file name) followed by the part
  with the media type and data of the image; then the same for each reference image; then
  the text part with the closing instruction. The instance after the theorem writes the
  request out for two plates and one reference image.
\<close>

theorem engineerPrompt_parts_order:
  "\<exists>req. fst (engineerPrompt rt quotedPrompt targetModel plates refs ratio api_key)
            = [Engineer_call req]
         \<and> contents req = ordered_parts quotedPrompt plates refs ratio"
  by (simp add: engineerPrompt_events engineer_request_def engineer_parts_ordered)

theorem engineerPrompt_parts_order_instance:
  "fst (engineerPrompt rt_demo (js ''a sign'') IMAGE
          [image_demo ''text_plate_1.png'' ''image/png'' ''AAAA'',
           image_demo ''text_plate_2.png'' ''image/png'' ''BBBB'']
          [image_demo ''photo.jpg'' ''image/jpeg'' ''CCCC''] (js ''1:1'') (js ''KEY''))
   = [Engineer_call
        \<lparr>key = js ''KEY'', model = js ''gemini-2.5-pro'', role = Some (js ''user''),
         contents =
           [\<lparr>part_text = Some (js ''User'' @ [0x27] @ js ''s simple prompt: a sign'' @ [0x0A]
                                @ js ''Desired Aspect Ratio: 1:1''),
             inlineData = None\<rparr>,
            \<lparr>part_text = Some (js ''Text Plate 1 (text_plate_1.png):''), inlineData = None\<rparr>,
            \<lparr>part_text = None,
             inlineData = Some \<lparr>mimeType = js ''image/png'', data = js ''AAAA''\<rparr>\<rparr>,
            \<lparr>part_text = Some (js ''Text Plate 2 (text_plate_2.png):''), inlineData = None\<rparr>,
            \<lparr>part_text = None,
             inlineData = Some \<lparr>mimeType = js ''image/png'', data = js ''BBBB''\<rparr>\<rparr>,
            \<lparr>part_text = Some (js ''User Reference Image 1 (photo.jpg):''),
             inlineData = None\<rparr>,
            \<lparr>part_text = None,
             inlineData = Some \<lparr>mimeType = js ''image/jpeg'', data = js ''CCCC''\<rparr>\<rparr>,
            \<lparr>part_text = Some (js (''Now, generate the professional prompt JSON based on ''
                                    @ ''all inputs and the system instruction.'')),
             inlineData = None\<rparr>],
         systemInstruction = Some SYSTEM_INSTRUCTION_IMAGE,
         responseMimeType = Some (js ''application/json''), temperature = None,
         responseModalities = []\<rparr>]"
proof -
  let ?plates = "[image_demo ''text_plate_1.png'' ''image/png'' ''AAAA'',
                  image_demo ''text_plate_2.png'' ''image/png'' ''BBBB'']"
  let ?refs = "[image_demo ''photo.jpg'' ''image/jpeg'' ''CCCC'']"
  let ?run = "engineerPrompt rt_demo (js ''a sign'') IMAGE ?plates ?refs (js ''1:1'') (js ''KEY'')"
  from engineerPrompt_parts_order [of rt_demo "js ''a sign''" IMAGE ?plates ?refs "js ''1:1''"
      "js ''KEY''"]
  obtain req where r: "fst ?run = [Engineer_call req]"
    and c: "contents req = ordered_parts (js ''a sign'') ?plates ?refs (js ''1:1'')"
    by blast
  have "fst ?run = [Engineer_call (engineer_request (js ''a sign'') IMAGE ?plates ?refs
                                     (js ''1:1'') (js ''KEY''))]"
    by (simp add: engineerPrompt_events)
  with r have req: "req = engineer_request (js ''a sign'') IMAGE ?plates ?refs (js ''1:1'')
                            (js ''KEY'')"
    by simp
  have o: "ordered_parts (js ''a sign'') ?plates ?refs (js ''1:1'')
     = [\<lparr>part_text = Some (js ''User'' @ [0x27] @ js ''s simple prompt: a sign'' @ [0x0A]
                          @ js ''Desired Aspect Ratio: 1:1''),
         inlineData = None\<rparr>,
        \<lparr>part_text = Some (js ''Text Plate 1 (text_plate_1.png):''), inlineData = None\<rparr>,
        \<lparr>part_text = None,
         inlineData = Some \<lparr>mimeType = js ''image/png'', data = js ''AAAA''\<rparr>\<rparr>,
        \<lparr>part_text = Some (js ''Text Plate 2 (text_plate_2.png):''), inlineData = None\<rparr>,
        \<lparr>part_text = None,
         inlineData = Some \<lparr>mimeType = js ''image/png'', data = js ''BBBB''\<rparr>\<rparr>,
        \<lparr>part_text = Some (js ''User Reference Image 1 (photo.jpg):''),
         inlineData = None\<rparr>,
        \<lparr>part_text = None,
         inlineData = Some \<lparr>mimeType = js ''image/jpeg'', data = js ''CCCC''\<rparr>\<rparr>,
        \<lparr>part_text = Some (js (''Now, generate the professional prompt JSON based on ''
                                @ ''all inputs and the system instruction.'')),
         inlineData = None\<rparr>]"
    by code_simp
  from c req have "engineer_parts (js ''a sign'') ?plates ?refs (js ''1:1'')
                   = ordered_parts (js ''a sign'') ?plates ?refs (js ''1:1'')"
    by (simp add: engineer_request_def)
  with r req o show ?thesis
    by (simp add: engineer_request_def)
qed

text \<open>
  C5. When the text of the response does not parse, the prompt-engineering client fails
  with an error whose message ends with the raw text of the response, and it has called
  the model exactly once: the call is not repeated.
\<close>

theorem engineerPrompt_unparseable:
  assumes "generateContent rt (engineer_request quotedPrompt targetModel plates refs ratio api_key)
             = Inr response"
    and "JSON_parse rt (String_of (response_text response)) = None"
  shows "\<exists>msg. engineerPrompt rt quotedPrompt targetModel plates refs ratio api_key
                 = ([Engineer_call (engineer_request quotedPrompt targetModel plates refs
                                      ratio api_key)],
                    Inl (Error msg))
               \<and> msg = invalid_response @ String_of (response_text response)
               \<and> sublist (String_of (response_text response)) msg"
  using assms by (simp add: engineerPrompt_def Let_def)

theorem engineerPrompt_unparseable_witness:
  "engineerPrompt (rt_text (Some (js ''Sorry, no.''))) (js ''a sign'') IMAGE [] [] (js ''1:1'')
     (js ''KEY'')
   = ([Engineer_call (engineer_request (js ''a sign'') IMAGE [] [] (js ''1:1'') (js ''KEY''))],
      Inl (Error (invalid_response @ js ''Sorry, no.'')))"
proof -
  have 1: "generateContent (rt_text (Some (js ''Sorry, no.'')))
             (engineer_request (js ''a sign'') IMAGE [] [] (js ''1:1'') (js ''KEY''))
           = Inr \<lparr>response_text = Some (js ''Sorry, no.''), candidates = None\<rparr>"
    by (simp add: rt_text_def)
  have 2: "JSON_parse (rt_text (Some (js ''Sorry, no.'')))
             (String_of (response_text \<lparr>response_text = Some (js ''Sorry, no.''),
                                        candidates = None\<rparr>)) = None"
    by (simp add: rt_text_def JSON_parse_demo_def js_def engineered_text_demo_def quoted_def)
  show ?thesis
    using engineerPrompt_unparseable [OF 1 2] by auto
qed

lemma engineerPrompt_rejected:
  assumes "generateContent rt (engineer_request quotedPrompt targetModel plates refs ratio api_key)
             = Inl error"
  shows "snd (engineerPrompt rt quotedPrompt targetModel plates refs ratio api_key) = Inl error"
  using assms by (simp add: engineerPrompt_def Let_def)

text \<open>
  C10, as the code has it. The prompt-engineering client throws exactly when the call to
  the model is rejected or the text of the response does not parse; a rejected call is
  thrown on as it is. Whatever does parse is returned as it is: no field of the schema is
  looked at, so a value that does not conform to the schema of an engineered prompt (the
  empty object, for one) is returned as an engineered prompt.
\<close>

theorem engineerPrompt_throws_iff:
  "((\<exists>error. snd (engineerPrompt rt quotedPrompt targetModel plates refs ratio api_key)
                = Inl error)
     \<longleftrightarrow> (\<exists>error. generateContent rt
                      (engineer_request quotedPrompt targetModel plates refs ratio api_key)
                    = Inl error)
         \<or> response_fails_to_parse rt
              (generateContent rt
                 (engineer_request quotedPrompt targetModel plates refs ratio api_key)))
   \<and> (\<forall>error. generateContent rt
                  (engineer_request quotedPrompt targetModel plates refs ratio api_key)
                = Inl error
          \<longrightarrow> snd (engineerPrompt rt quotedPrompt targetModel plates refs ratio api_key)
                = Inl error)
   \<and> (\<forall>response parsedJson.
          generateContent rt
            (engineer_request quotedPrompt targetModel plates refs ratio api_key)
          = Inr response
          \<and> JSON_parse rt (String_of (response_text response)) = Some parsedJson
          \<longrightarrow> snd (engineerPrompt rt quotedPrompt targetModel plates refs ratio api_key)
                = Inr parsedJson)
   \<and> (\<exists>rt' unchecked.
          snd (engineerPrompt rt' quotedPrompt targetModel plates refs ratio api_key)
            = Inr unchecked
          \<and> \<not> conforms_EngineeredPrompt unchecked)"
proof -
  have "snd (engineerPrompt (rt_text (Some (js ''{}''))) quotedPrompt targetModel plates refs
               ratio api_key) = Inr (JObject [])"
    by (simp add: engineerPrompt_def Let_def rt_text_def JSON_parse_demo_def)
  moreover have "\<not> conforms_EngineeredPrompt (JObject [])"
    by (simp add: conforms_EngineeredPrompt_def)
  ultimately have "\<exists>rt' unchecked.
             snd (engineerPrompt rt' quotedPrompt targetModel plates refs ratio api_key)
               = Inr unchecked
             \<and> \<not> conforms_EngineeredPrompt unchecked"
    by blast
  then show ?thesis
    by (auto simp: engineerPrompt_def response_fails_to_parse_def Let_def
             split: sum.splits option.splits)
qed

theorem engineerPrompt_throws_iff_witness:
  "snd (engineerPrompt (rt_text (Some (js ''null''))) (js ''a sign'') IMAGE [] [] (js ''1:1'')
          (js ''KEY'')) = Inr JNull
   \<and> \<not> conforms_EngineeredPrompt JNull
   \<and> snd (engineerPrompt (rt_failing (Error (js ''Failed to fetch''))) (js ''a sign'') IMAGE
            [] [] (js ''1:1'') (js ''KEY'')) = Inl (Error (js ''Failed to fetch''))"
proof -
  have 1: "generateContent (rt_text (Some (js ''null'')))
             (engineer_request (js ''a sign'') IMAGE [] [] (js ''1:1'') (js ''KEY''))
           = Inr \<lparr>response_text = Some (js ''null''), candidates = None\<rparr>"
    by (simp add: rt_text_def)
  have 2: "JSON_parse (rt_text (Some (js ''null'')))
             (String_of (response_text \<lparr>response_text = Some (js ''null''),
                                        candidates = None\<rparr>)) = Some JNull"
    by (simp add: rt_text_def JSON_parse_demo_def js_def)
  have 3: "\<not> conforms_EngineeredPrompt JNull"
    by (simp add: conforms_EngineeredPrompt_def)
  have 4: "generateContent (rt_failing (Error (js ''Failed to fetch'')))
             (engineer_request (js ''a sign'') IMAGE [] [] (js ''1:1'') (js ''KEY''))
           = Inl (Error (js ''Failed to fetch''))"
    by (simp add: rt_failing_def)
  show ?thesis
    using 1 2 3 4
      engineerPrompt_throws_iff [of "rt_text (Some (js ''null''))" "js ''a sign''" IMAGE "[]"
        "[]" "js ''1:1''" "js ''KEY''"]
      engineerPrompt_throws_iff [of "rt_failing (Error (js ''Failed to fetch''))"
        "js ''a sign''" IMAGE "[]" "[]" "js ''1:1''" "js ''KEY''"]
    by simp
qed

text \<open>
  C10, as the claim words it, fails where the call to the model is rejected: the client
  throws the error of the call, and there is no response whose text fails to parse.
\<close>

theorem engineerPrompt_throws_iff_counterexample:
  "snd (engineerPrompt (rt_failing (Error (js ''Failed to fetch''))) (js ''a sign'') IMAGE
          [] [] (js ''1:1'') (js ''KEY'')) = Inl (Error (js ''Failed to fetch''))
   \<and> \<not> response_fails_to_parse (rt_failing (Error (js ''Failed to fetch'')))
         (generateContent (rt_failing (Error (js ''Failed to fetch'')))
            (engineer_request (js ''a sign'') IMAGE [] [] (js ''1:1'') (js ''KEY'')))"
  by (simp add: engineerPrompt_def Let_def rt_failing_def response_fails_to_parse_def)

section \<open>The image clients\<close>

lemma generate_parts_map:
  "generate_parts p plates refs = text_part p # map inline_part (plates @ refs)"
proof -
  have "foldl (\<lambda>ps img. ps @ [inline_part img]) acc imgs = acc @ map inline_part imgs"
    for acc imgs
    by (induction imgs arbitrary: acc) simp_all
  then show ?thesis
    by (simp add: generate_parts_def)
qed

lemma first_inlineData_None_iff:
  "first_inlineData ps = None \<longleftrightarrow> (\<forall>part\<in>set ps. inlineData part = None)"
  by (induction ps) (auto split: option.splits)

lemma first_inlineData_Some:
  assumes "first_inlineData ps = Some blob"
  shows "\<exists>before part after. ps = before @ part # after
           \<and> (\<forall>q\<in>set before. inlineData q = None) \<and> inlineData part = Some blob"
  using assms
proof (induction ps)
  case Nil
  then show ?case by simp
next
  case (Cons p ps)
  show ?case
  proof (cases "inlineData p")
    case None
    with Cons obtain before part after where
      "ps = before @ part # after" "\<forall>q\<in>set before. inlineData q = None"
      "inlineData part = Some blob"
      by auto
    with None have "p # ps = (p # before) @ part # after
      \<and> (\<forall>q\<in>set (p # before). inlineData q = None) \<and> inlineData part = Some blob"
      by simp
    then show ?thesis by blast
  next
    case (Some b)
    with Cons.prems have "p # ps = [] @ p # ps \<and> (\<forall>q\<in>set []. inlineData q = None)
      \<and> inlineData p = Some blob"
      by simp
    then show ?thesis by blast
  qed
qed

lemma generateImage_with_parts:
  assumes "generateContent rt (image_request (generate_parts p plates refs) k) = Inr response"
    and "response_parts response = Inr ps"
  shows "snd (generateImage rt p plates refs k)
         = (case first_inlineData ps of
              Some blob \<Rightarrow> Inr (js ''data:image/png;base64,'' @ data blob)
            | None \<Rightarrow> Inl (Error (js ''No image was generated by the model.'')))"
  using assms by (simp add: generateImage_def Let_def)

text \<open>
  C6. A response that carries no candidate at all (the service sends one when it blocks
  the prompt) holds no image; the image client fails on it with the type error of
  reading a property of \<^verbatim>\<open>undefined\<close>, not with its own "no image" error.
\<close>

theorem generateImage_without_candidates:
  "snd (generateImage (rt_text None) (js ''a cat'') [] [] (js ''KEY''))
     = Inl (cannot_read ''undefined'' ''0'')
   \<and> snd (generateImage (rt_text None) (js ''a cat'') [] [] (js ''KEY''))
       \<noteq> Inl (Error (js ''No image was generated by the model.''))"
  by (simp add: generateImage_def Let_def rt_text_def response_parts_def cannot_read_def)

section \<open>The error handler\<close>

text \<open>
  C7. The handler classifies a failure by looking for two known substrings in the details
  of the error. If one of them occurs, the stored credential and the key in memory are
  cleared, the credential prompt is opened with a message, and the state is Idle.
  Otherwise the one error message is set from the caller's message and the details, the
  state is Error, and the credential is left alone.
\<close>

theorem handleError_classifies:
  "(sublist (js ''API key not valid'') (errorDetails error)
     \<or> sublist (js ''API_KEY_INVALID'') (errorDetails error)
    \<longrightarrow> localStorage (handleError msg error None s) = None
        \<and> apiKey (handleError msg error None s) = None
        \<and> isApiKeyModalOpen (handleError msg error None s)
        \<and> apiKeyError (handleError msg error None s) \<noteq> None
        \<and> appState (handleError msg error None s) = IDLE
        \<and> errorMessage (handleError msg error None s) = errorMessage s)
   \<and> (\<not> (sublist (js ''API key not valid'') (errorDetails error)
          \<or> sublist (js ''API_KEY_INVALID'') (errorDetails error))
    \<longrightarrow> errorMessage (handleError msg error None s)
          = Some (msg @ js '': '' @ errorDetails error)
        \<and> appState (handleError msg error None s) = ERROR
        \<and> localStorage (handleError msg error None s) = localStorage s
        \<and> apiKey (handleError msg error None s) = apiKey s
        \<and> isApiKeyModalOpen (handleError msg error None s) = isApiKeyModalOpen s)"
  by (simp add: handleError_def invalid_key_def String_includes_sublist)

theorem handleError_classifies_witness:
  "appState (handleError (js ''Generation failed'')
      (Some (Error (js ''400 API key not valid.''))) None s_demo) = IDLE
   \<and> apiKey (handleError (js ''Generation failed'')
      (Some (Error (js ''400 API key not valid.''))) None s_demo) = None
   \<and> appState (handleError (js ''Generation failed'')
      (Some (Error (js ''Failed to fetch''))) None s_demo) = ERROR
   \<and> errorMessage (handleError (js ''Generation failed'')
      (Some (Error (js ''Failed to fetch''))) None s_demo)
      = Some (js ''Generation failed: Failed to fetch'')"
proof -
  have 1: "sublist (js ''API key not valid'')
             (errorDetails (Some (Error (js ''400 API key not valid.''))))"
    unfolding String_includes_sublist [symmetric] by code_simp
  have 2: "\<not> (sublist (js ''API key not valid'')
                 (errorDetails (Some (Error (js ''Failed to fetch''))))
               \<or> sublist (js ''API_KEY_INVALID'')
                 (errorDetails (Some (Error (js ''Failed to fetch'')))))"
    unfolding String_includes_sublist [symmetric] by code_simp
  have 3: "js ''Generation failed'' @ js '': ''
             @ errorDetails (Some (Error (js ''Failed to fetch'')))
           = js ''Generation failed: Failed to fetch''"
    by (simp add: js_def errorDetails_def)
  show ?thesis
    using 1 2 3
      handleError_classifies [of "Some (Error (js ''400 API key not valid.''))"
        "js ''Generation failed''" s_demo]
      handleError_classifies [of "Some (Error (js ''Failed to fetch''))"
        "js ''Generation failed''" s_demo]
    by simp
qed

lemma first_generation_failure_handled:
  assumes "apiKey s = Some k" and "k \<noteq> []" and "trim (userPrompt s) \<noteq> []"
    and "first_generation rt s (userPrompt s) k = (ev, Inl error)"
  shows "last (snd (handleGenerate rt None s))
         = handleError (js ''Generation failed'') (Some error) None
             (s\<lparr>appState := LOADING, resultUrl := None, errorMessage := None\<rparr>)"
  using assms by (simp add: handleGenerate_def Let_def)

lemma generateImage_failure_handled:
  assumes "apiKey s = Some k" and "k \<noteq> []"
    and "generateImage rt (prompt config) (textPlates config) (referenceImages config) k
           = (ev, Inl error)"
  shows "last (snd (handleGenerate rt (Some config) s))
         = handleError (js ''Generation failed'') (Some error) None
             (s\<lparr>appState := LOADING, resultUrl := None, errorMessage := None,
                lastConfig := Some config\<rparr>)"
  using assms by (simp add: handleGenerate_def Let_def)

section \<open>The stages of a generation\<close>

lemma generateImage_events:
  "fst (generateImage rt p tp ri k) = [Generate_call (image_request (generate_parts p tp ri) k)]"
  by (simp add: generateImage_def Let_def)

lemma addQuotesToPrompt_stages:
  "stage_of ` set (fst (addQuotesToPrompt rt p k)) \<subseteq> {Quoting}"
  by (simp add: addQuotesToPrompt_def)

lemma extractTextAndGeneratePlates_stages:
  "map stage_of (fst (extractTextAndGeneratePlates rt q))
     = replicate (length (quoted_spans q)) Plate_rendering"
  by (simp add: extractTextAndGeneratePlates_def Let_def map_replicate_const comp_def)

lemma first_generation_events:
  "fst (first_generation rt s p k)
     = fst (addQuotesToPrompt rt p k)
       @ (case snd (addQuotesToPrompt rt p k) of
            Inl error \<Rightarrow> []
          | Inr q \<Rightarrow>
              map Plate_render (quoted_spans q)
              @ [Engineer_call
                   (engineer_request q IMAGE (snd (extractTextAndGeneratePlates rt q))
                      (referenceImages' s) (AspectRatio_value (aspectRatio s)) k)])"
proof (cases "addQuotesToPrompt rt p k")
  case (Pair ev1 r1)
  show ?thesis
  proof (cases r1)
    case (Inl error)
    with Pair show ?thesis by (simp add: first_generation_def)
  next
    case (Inr q)
    obtain ev2 plates where e: "extractTextAndGeneratePlates rt q = (ev2, plates)"
      by (cases "extractTextAndGeneratePlates rt q")
    then have ev2: "ev2 = map Plate_render (quoted_spans q)"
      by (auto simp: extractTextAndGeneratePlates_def Let_def)
    obtain ev3 r3 where g: "engineerPrompt rt q IMAGE plates (referenceImages' s)
                              (AspectRatio_value (aspectRatio s)) k = (ev3, r3)"
      by (cases "engineerPrompt rt q IMAGE plates (referenceImages' s)
                   (AspectRatio_value (aspectRatio s)) k")
    then have ev3: "ev3 = [Engineer_call (engineer_request q IMAGE plates (referenceImages' s)
                                            (AspectRatio_value (aspectRatio s)) k)]"
      by (auto simp: engineerPrompt_def Let_def)
    from Pair Inr e g ev2 ev3 show ?thesis
      by (simp add: first_generation_def split: sum.splits)
  qed
qed

lemma first_generation_stages:
  "stage_of ` set (fst (first_generation rt s p k)) \<subseteq> {Quoting, Plate_rendering, Engineering}"
  using addQuotesToPrompt_stages [of rt p k]
  by (auto simp: first_generation_events split: sum.splits)

lemma first_generation_stageD:
  assumes "first_generation rt s p k = (ev, r)" and "e \<in> set ev"
  shows "stage_of e \<in> {Quoting, Plate_rendering, Engineering}"
  using first_generation_stages [of rt s p k] assms by auto

lemma generateImage_stageD:
  assumes "generateImage rt p plates refs k = (ev, r)" and "e \<in> set ev"
  shows "stage_of e = Generation"
  using generateImage_events [of rt p plates refs k] assms by auto

lemma handleGenerate_never_grounds:
  "Grounding \<notin> stage_of ` set (fst (handleGenerate rt retryConfig s))"
proof -
  have "stage_of e \<in> {Quoting, Plate_rendering, Engineering, Generation}"
    if "e \<in> set (fst (handleGenerate rt retryConfig s))" for e
    using that
    by (auto simp: handleGenerate_def Let_def
             split: prod.splits sum.splits option.splits if_splits
             dest: first_generation_stageD generateImage_stageD)
  then show ?thesis by fastforce
qed

text \<open>
  C1. The scenario: a first generation whose engineered prompt asks for a grounding
  photo (its \<^verbatim>\<open>grounding_search_query\<close> is a string). The orchestrator quotes,
  renders the one plate, engineers and generates; the grounding client is not among the
  stages it runs, and no image but the user's own (here none) goes into the stored
  configuration.
\<close>

theorem handleGenerate_skips_grounding:
  "snd (engineerPrompt rt_demo quoted_demo IMAGE
          (snd (extractTextAndGeneratePlates rt_demo quoted_demo)) [] (js ''1:1'') (js ''KEY''))
     = Inr engineered_demo
   \<and> get_field engineered_demo ''grounding_search_query''
       = Inr (Some (JString (js ''Azadi Tower Tehran'')))
   \<and> map stage_of (fst (handleGenerate rt_demo None s_demo))
       = [Quoting, Plate_rendering, Engineering, Generation]
   \<and> appState (last (snd (handleGenerate rt_demo None s_demo))) = SUCCESS
   \<and> map_option referenceImages (lastConfig (last (snd (handleGenerate rt_demo None s_demo))))
       = Some []"
  by code_simp

section \<open>Retry\<close>

lemma handleError_not_SUCCESS: "appState (handleError msg error None s) \<noteq> SUCCESS"
  by (simp add: handleError_def)

lemma handleGenerate_success:
  assumes "appState s \<noteq> SUCCESS"
    and "handleGenerate rt None s = (ev, states)"
    and "appState (last states) = SUCCESS"
  obtains k config ev1 url where
    "apiKey s = Some k" and "k \<noteq> []" and "trim (userPrompt s) \<noteq> []"
    and "first_generation rt s (userPrompt s) k = (ev1, Inr config)"
    and "ev = ev1 @ fst (generateImage rt (prompt config) (textPlates config)
                          (referenceImages config) k)"
    and "last states =
           s\<lparr>appState := SUCCESS, resultUrl := Some url, errorMessage := None,
             lastConfig := Some config\<rparr>"
proof (cases "truthy (apiKey s)")
  case False
  with assms have False by (auto simp: handleGenerate_def)
  then show ?thesis ..
next
  case True
  then obtain k where k: "apiKey s = Some k" "k \<noteq> []"
    by (cases "apiKey s") auto
  show ?thesis
  proof (cases "trim (userPrompt s) = []")
    case True
    with assms k have False
      by (auto simp: handleGenerate_def Let_def handleError_not_SUCCESS)
    then show ?thesis ..
  next
    case False
    obtain ev1 r where fg: "first_generation rt s (userPrompt s) k = (ev1, r)"
      by (cases "first_generation rt s (userPrompt s) k")
    show ?thesis
    proof (cases r)
      case (Inl error)
      with assms k False fg have False
        by (auto simp: handleGenerate_def Let_def handleError_not_SUCCESS)
      then show ?thesis ..
    next
      case (Inr config)
      obtain ev2 r2 where gi: "generateImage rt (prompt config) (textPlates config)
                                 (referenceImages config) k = (ev2, r2)"
        by (cases "generateImage rt (prompt config) (textPlates config)
                     (referenceImages config) k")
      show ?thesis
      proof (cases r2)
        case (Inl error)
        with assms k False fg Inr gi have False
          by (auto simp: handleGenerate_def Let_def handleError_not_SUCCESS)
        then show ?thesis ..
      next
        case url: (Inr url)
        from assms(2) k False fg Inr gi url
        have "ev = ev1 @ ev2"
          and "last states =
                 s\<lparr>appState := SUCCESS, resultUrl := Some url, errorMessage := None,
                   lastConfig := Some config\<rparr>"
          by (auto simp: handleGenerate_def Let_def)
        with k False fg Inr gi show ?thesis
          by (intro that [of k ev1 config url]) simp_all
      qed
    qed
  qed
qed

lemma first_generation_order:
  assumes "appState s \<noteq> SUCCESS"
    and "handleGenerate rt None s = (ev, states)"
    and "appState (last states) = SUCCESS"
  shows "\<exists>k q. apiKey s = Some k
           \<and> snd (addQuotesToPrompt rt (userPrompt s) k) = Inr q
           \<and> map stage_of ev
               = Quoting # replicate (length (quoted_spans q)) Plate_rendering
                 @ [Engineering, Generation]"
proof -
  from assms obtain k config ev1 url where
    k: "apiKey s = Some k" and t: "trim (userPrompt s) \<noteq> []"
    and fg: "first_generation rt s (userPrompt s) k = (ev1, Inr config)"
    and ev: "ev = ev1 @ fst (generateImage rt (prompt config) (textPlates config)
                          (referenceImages config) k)"
    by (rule handleGenerate_success)
  obtain q where q: "snd (addQuotesToPrompt rt (userPrompt s) k) = Inr q"
    using addQuotesToPrompt_never_fails [of rt "userPrompt s" k] by blast
  have "ev1 = fst (first_generation rt s (userPrompt s) k)"
    using fg by simp
  then have "map stage_of ev1
             = Quoting # replicate (length (quoted_spans q)) Plate_rendering @ [Engineering]"
    using q t
    by (simp add: first_generation_events addQuotesToPrompt_events map_replicate_const
        comp_def)
  with ev k q show ?thesis
    by (simp add: generateImage_events)
qed

text \<open>
  C2. Take a first generation, started where the Generate button is (the state is not
  Success), that ends in Success. Retry is then \<^verbatim>\<open>handleGenerate\<close> on the configuration
  that run has stored. Whatever the models would answer this time, the retry does one
  thing to the outside: the image-generation call, with the very request the first run
  ended on, built from the stored prompt, text plates and reference images. No quoting
  call and no engineering call is made again.
\<close>

theorem retry_reuses_config:
  assumes "appState s \<noteq> SUCCESS"
    and "handleGenerate rt None s = (ev, states)"
    and "appState (last states) = SUCCESS"
  shows "\<exists>config k before.
           lastConfig (last states) = Some config \<and> apiKey s = Some k
           \<and> ev = before @ [Generate_call (image_request
                    (generate_parts (prompt config) (textPlates config)
                       (referenceImages config)) k)]
           \<and> fst (handleGenerate rt' (lastConfig (last states)) (last states))
               = [Generate_call (image_request
                    (generate_parts (prompt config) (textPlates config)
                       (referenceImages config)) k)]"
proof -
  from assms obtain k config ev1 url where
    k: "apiKey s = Some k" "k \<noteq> []"
    and ev: "ev = ev1 @ fst (generateImage rt (prompt config) (textPlates config)
                          (referenceImages config) k)"
    and l: "last states =
           s\<lparr>appState := SUCCESS, resultUrl := Some url, errorMessage := None,
             lastConfig := Some config\<rparr>"
    by (rule handleGenerate_success)
  have "fst (handleGenerate rt' (lastConfig (last states)) (last states))
        = fst (generateImage rt' (prompt config) (textPlates config)
                 (referenceImages config) k)"
    using k l by (simp add: handleGenerate_def Let_def split: prod.splits sum.splits)
  with ev l k show ?thesis
    by (auto simp: generateImage_events)
qed

theorem retry_reuses_config_witness:
  "map stage_of
     (fst (handleGenerate (rt_failing (Error (js ''Failed to fetch'')))
             (lastConfig (last (snd (handleGenerate rt_demo None s_demo))))
             (last (snd (handleGenerate rt_demo None s_demo)))))
   = [Generation]"
proof -
  have 1: "appState s_demo \<noteq> SUCCESS"
    by (simp add: s_demo_def useEffect_def initial_def Let_def)
  have 2: "handleGenerate rt_demo None s_demo
           = (fst (handleGenerate rt_demo None s_demo), snd (handleGenerate rt_demo None s_demo))"
    by simp
  have 3: "appState (last (snd (handleGenerate rt_demo None s_demo))) = SUCCESS"
    by code_simp
  from retry_reuses_config [OF 1 2 3, of "rt_failing (Error (js ''Failed to fetch''))"]
  show ?thesis by auto
qed

section \<open>The views\<close>

lemma generateImage_url:
  "generateImage rt p tp ri k = (ev, Inr url) \<Longrightarrow> url \<noteq> []"
  by (auto simp: generateImage_def Let_def split: sum.splits option.splits)

lemma handleError_consistent:
  assumes "\<not> isApiKeyModalOpen s" and "truthy (apiKey s)"
  shows "consistent (handleError msg error None s)"
  using assms by (simp add: handleError_def consistent_def)

lemma loading_consistent:
  assumes "\<not> isApiKeyModalOpen s" and "truthy (apiKey s)"
  shows "consistent (s\<lparr>appState := LOADING, resultUrl := r, errorMessage := m\<rparr>)"
    and "consistent (s\<lparr>appState := LOADING, resultUrl := r, errorMessage := m, lastConfig := c\<rparr>)"
  using assms by (simp_all add: consistent_def)

lemma handleGenerate_consistent:
  assumes "consistent s" and "s' \<in> set (snd (handleGenerate rt retryConfig s))"
  shows "consistent s'"
proof (cases "truthy (apiKey s)")
  case False
  with assms show ?thesis
    by (auto simp: handleGenerate_def consistent_def)
next
  case True
  then obtain k where k: "apiKey s = Some k" by (cases "apiKey s") auto
  from True assms(1) have closed: "\<not> isApiKeyModalOpen s"
    by (auto simp: consistent_def)
  let ?s1 = "s\<lparr>appState := LOADING, resultUrl := None, errorMessage := None\<rparr>"
  have s1: "\<not> isApiKeyModalOpen ?s1" "truthy (apiKey ?s1)"
    using closed True by simp_all
  have s2: "\<And>c. \<not> isApiKeyModalOpen (?s1\<lparr>lastConfig := c\<rparr>)"
    "\<And>c. truthy (apiKey (?s1\<lparr>lastConfig := c\<rparr>))"
    using closed True by simp_all
  note hE = handleError_consistent [OF closed True] handleError_consistent [OF s1]
    handleError_consistent [OF s2]
  note ld = loading_consistent [OF closed True]
  have fin: "\<And>c url. url \<noteq> [] \<Longrightarrow>
     consistent (?s1\<lparr>lastConfig := c, resultUrl := Some url, appState := SUCCESS\<rparr>)"
    using closed True by (simp add: consistent_def)
  from assms(2) show ?thesis
    using True k hE ld fin
    by (auto simp: handleGenerate_def Let_def
             split: if_splits prod.splits sum.splits option.splits
             dest: generateImage_url)
qed

lemma reachable_consistent: "reachable s \<Longrightarrow> consistent s"
proof (induction rule: reachable.induct)
  case (first_render stored)
  then show ?case by (simp add: initial_def consistent_def)
next
  case (mounted stored)
  then show ?case by (simp add: initial_def useEffect_def consistent_def)
next
  case (save_key s k)
  then show ?case
    by (auto simp: handleSaveApiKey_def consistent_def shows_credential_prompt_def)
next
  case (generate s s' rt)
  then show ?case by (blast intro: handleGenerate_consistent)
next
  case (retry s s' rt)
  then show ?case by (blast intro: handleGenerate_consistent)
next
  case (start_over s)
  then show ?case by (auto simp: handleStartOver_def consistent_def)
qed (auto simp: consistent_def)

text \<open>
  C8, as the code has it. In a reachable state at most one of the four views (loading
  indicator, success view, error view, credential prompt) is shown: exactly one, unless
  the state is Idle and the credential prompt is closed; then none of the four is shown
  and the input form stands alone.
\<close>

theorem views_of_reachable:
  assumes "reachable s"
  shows "views_shown s = (if appState s = IDLE \<and> \<not> isApiKeyModalOpen s then 0 else 1)"
proof -
  from assms have "consistent s" by (rule reachable_consistent)
  then show ?thesis
    by (cases "appState s")
       (auto simp: consistent_def views_shown_def shows_loading_def shows_success_def
          shows_error_def shows_credential_prompt_def)
qed

theorem views_of_reachable_witness:
  "views_shown (useEffect (initial None)) = 1"
proof -
  have "views_shown (useEffect (initial None))
        = (if appState (useEffect (initial None)) = IDLE
              \<and> \<not> isApiKeyModalOpen (useEffect (initial None)) then 0 else 1)"
    by (rule views_of_reachable) (rule reachable.mounted)
  then show ?thesis
    by (simp add: useEffect_def initial_def Let_def)
qed

text \<open>
  C8, as the specification words it, fails in the state the component is in once a
  stored key has been loaded: the state is reachable, and none of the four views is
  shown, only the form.
\<close>

theorem views_of_reachable_counterexample:
  "reachable (useEffect (initial (Some (js ''KEY''))))
   \<and> views_shown (useEffect (initial (Some (js ''KEY'')))) \<noteq> 1
   \<and> shows_form (useEffect (initial (Some (js ''KEY''))))"
proof -
  have "reachable (useEffect (initial (Some (js ''KEY''))))"
    by (rule reachable.mounted)
  moreover have "views_shown (useEffect (initial (Some (js ''KEY'')))) = 0"
    by (simp add: views_shown_def useEffect_def initial_def Let_def shows_loading_def
        shows_success_def shows_error_def shows_credential_prompt_def)
  moreover have "shows_form (useEffect (initial (Some (js ''KEY''))))"
    by (simp add: shows_form_def useEffect_def initial_def Let_def)
  ultimately show ?thesis by simp
qed

end
